theory Spec2Isabelle
  imports
    Complex_Main
    "HOL-Library.Multiset"
    "HOL-Library.Char_ord"
    "HOL-Library.List_Lexorder"
    "HOL-Library.Option_ord"
    "HOL-Library.Product_Lexorder"
begin

section \<open>The TMDB movie pipeline of \<^verbatim>\<open>src/main.py\<close>\<close>

text \<open>
  The script is a linear batch: Extract (HTTP), Transform (pandas), Load (SQLite),
  Report (five SQL queries). The embedding follows the script top to bottom.

  Input schema. The JSON objects of the API are modelled as records. A key that the
  script reads with \<^verbatim>\<open>.get\<close> is an \<open>option\<close> field (\<open>None\<close>: the key is absent or
  null); a key that the script reads with a subscript (\<^verbatim>\<open>genre['id']\<close>,
  \<^verbatim>\<open>member['job']\<close>, \<^verbatim>\<open>actor['character']\<close>) is a mandatory field, as it is in every
  object the API delivers. Identifiers are unbounded integers; the rating is carried
  unchanged and its type is a parameter \<open>'v\<close>.
\<close>

subsection \<open>Extract: the listing\<close>

record movie_summary =
  summary_id :: "int option"
  summary_title :: "string option"

record page_response =
  page_status_code :: int
  page_results :: "movie_summary list option"

datatype request = GetTopRated nat | GetDetails int | GetCredits int

text \<open>
  \<^verbatim>\<open>response.json().get('results', [])\<close>: the results of a page, or the empty list where
  the key is absent.
\<close>

definition results_or_empty :: "page_response \<Rightarrow> movie_summary list" where
  "results_or_empty response = (case page_results response of None \<Rightarrow> [] | Some rs \<Rightarrow> rs)"

text \<open>
  The body of \<^verbatim>\<open>for page in range(1, 4)\<close>, with the accumulator \<^verbatim>\<open>top_movies\<close>. The
  \<^verbatim>\<open>else\<close> branch is the early \<^verbatim>\<open>return []\<close>; running off the end of the range is the
  final \<^verbatim>\<open>return top_movies[:50]\<close>. The second component is the list of requests
  issued, in order.
\<close>

fun fetch_pages ::
  "(nat \<Rightarrow> page_response) \<Rightarrow> nat list \<Rightarrow> movie_summary list \<Rightarrow> request list
     \<Rightarrow> movie_summary list \<times> request list" where
  "fetch_pages get [] top_movies sent = (take 50 top_movies, sent)"
| "fetch_pages get (page # pages) top_movies sent =
     (let response = get page in
      if page_status_code response = 200
      then fetch_pages get pages (top_movies @ results_or_empty response)
             (sent @ [GetTopRated page])
      else ([], sent @ [GetTopRated page]))"

definition fetch_top_movies :: "(nat \<Rightarrow> page_response) \<Rightarrow> movie_summary list \<times> request list" where
  "fetch_top_movies get = fetch_pages get [1, 2, 3] [] []"

subsection \<open>Extract: details and credits of one movie\<close>

record genre =
  genre_id :: int
  genre_name :: string

record cast_member =
  actor_id :: int
  actor_name :: string
  actor_character :: string

record crew_member =
  member_job :: string
  member_id :: int
  member_name :: string

text \<open>
  The two JSON objects of a movie. \<open>details_other_keys\<close> and \<open>credits_other_keys\<close>
  count the keys that the script never reads: Python tests the objects for truth, and
  a dictionary is false exactly when it has no key at all.
\<close>

record 'v details_json =
  details_id :: "int option"
  details_title :: "string option"
  details_overview :: "string option"
  details_release_date :: "string option"
  details_vote_average :: "'v option"
  details_genres :: "genre list option"
  details_other_keys :: nat

record credits_json =
  credits_cast :: "cast_member list option"
  credits_crew :: "crew_member list option"
  credits_other_keys :: nat

record 'v details_response =
  details_status_code :: int
  details_body :: "'v details_json"

record credits_response =
  credits_status_code :: int
  credits_body :: credits_json

text \<open>The remote API: what each endpoint answers to a request.\<close>

record 'v api =
  top_rated :: "nat \<Rightarrow> page_response"
  movie :: "int \<Rightarrow> 'v details_response"
  movie_credits :: "int \<Rightarrow> credits_response"

text \<open>
  \<^verbatim>\<open>fetch_movie_details\<close>: both requests are sent before either status is looked at;
  the pair is \<^verbatim>\<open>(None, None)\<close> unless both answered 200.
\<close>

definition fetch_movie_details ::
  "'v api \<Rightarrow> int \<Rightarrow> request list
     \<Rightarrow> ('v details_json option \<times> credits_json option) \<times> request list" where
  "fetch_movie_details api movie_id sent =
     (let details_response = movie api movie_id;
          credits_response = movie_credits api movie_id;
          sent' = sent @ [GetDetails movie_id, GetCredits movie_id]
      in if details_status_code details_response = 200
            \<and> credits_status_code credits_response = 200
         then ((Some (details_body details_response), Some (credits_body credits_response)), sent')
         else ((None, None), sent'))"

text \<open>
  Python truth of a dictionary: false exactly when it has no key. (\<^verbatim>\<open>None\<close>, the other
  false value that \<^verbatim>\<open>details\<close> and \<^verbatim>\<open>credits\<close> can take, is the \<open>None\<close> of the
  option.)
\<close>

definition details_truthy :: "'v details_json \<Rightarrow> bool" where
  "details_truthy d =
     (details_id d \<noteq> None \<or> details_title d \<noteq> None \<or> details_overview d \<noteq> None
      \<or> details_release_date d \<noteq> None \<or> details_vote_average d \<noteq> None
      \<or> details_genres d \<noteq> None \<or> details_other_keys d \<noteq> 0)"

definition credits_truthy :: "credits_json \<Rightarrow> bool" where
  "credits_truthy c =
     (credits_cast c \<noteq> None \<or> credits_crew c \<noteq> None \<or> credits_other_keys c \<noteq> 0)"

record 'v combined_data =
  tmdb_id :: "int option"
  title :: "string option"
  overview :: "string option"
  release_date :: "string option"
  vote_average :: "'v option"
  genres :: "genre list"
  cast :: "cast_member list"
  crew :: "crew_member list"

definition list_or_empty :: "'a list option \<Rightarrow> 'a list" where
  "list_or_empty v = (case v of None \<Rightarrow> [] | Some xs \<Rightarrow> xs)"

definition combine :: "'v details_json \<Rightarrow> credits_json \<Rightarrow> 'v combined_data" where
  "combine details credits =
     \<lparr> tmdb_id = details_id details,
       title = details_title details,
       overview = details_overview details,
       release_date = details_release_date details,
       vote_average = details_vote_average details,
       genres = list_or_empty (details_genres details),
       cast = list_or_empty (credits_cast credits),
       crew = list_or_empty (credits_crew credits) \<rparr>"

text \<open>
  One turn of \<^verbatim>\<open>for i, movie_summary in enumerate(top_movies_list)\<close>, on the state
  \<^verbatim>\<open>all_movies_data\<close> and the requests sent so far. \<^verbatim>\<open>if movie_id:\<close> is a test for
  truth: it fails for \<^verbatim>\<open>None\<close> (the first branch) and for \<^verbatim>\<open>0\<close> (the second).
\<close>

definition extract_step ::
  "'v api \<Rightarrow> movie_summary \<Rightarrow> 'v combined_data list \<times> request list
     \<Rightarrow> 'v combined_data list \<times> request list" where
  "extract_step api movie_summary st =
     (case summary_id movie_summary of
        None \<Rightarrow> st
      | Some movie_id \<Rightarrow>
          if movie_id = 0 then st
          else (let ((details, credits), sent') = fetch_movie_details api movie_id (snd st) in
                case (details, credits) of
                  (Some d, Some c) \<Rightarrow>
                    if details_truthy d \<and> credits_truthy c
                    then (fst st @ [combine d c], sent')
                    else (fst st, sent')
                | _ \<Rightarrow> (fst st, sent')))"

fun extract_loop ::
  "'v api \<Rightarrow> movie_summary list \<Rightarrow> 'v combined_data list \<times> request list
     \<Rightarrow> 'v combined_data list \<times> request list" where
  "extract_loop api [] st = st"
| "extract_loop api (movie_summary # rest) st =
     extract_loop api rest (extract_step api movie_summary st)"

text \<open>Phase 1 as a whole; \<^verbatim>\<open>if top_movies_list:\<close> guards the loop.\<close>

definition extract_phase :: "'v api \<Rightarrow> 'v combined_data list \<times> request list" where
  "extract_phase api =
     (let (top_movies_list, sent) = fetch_top_movies (top_rated api) in
      if top_movies_list \<noteq> [] then extract_loop api top_movies_list ([], sent)
      else ([], sent))"

subsection \<open>Transform: genres\<close>

datatype error = KeyError | IntCastingNaNError | ParserError string | DatabaseError string

text \<open>
  \<^verbatim>\<open>all_genres\<close> and \<^verbatim>\<open>all_people\<close> are Python dictionaries, which keep their keys in
  the order of insertion; \<^verbatim>\<open>list(d.items())\<close> later turns them into table rows in
  that order. They are association lists here.
  \<^verbatim>\<open>if k not in d: d[k] = v\<close> is \<open>add_unseen\<close>.
\<close>

definition add_unseen :: "int \<Rightarrow> string \<Rightarrow> (int \<times> string) list \<Rightarrow> (int \<times> string) list" where
  "add_unseen k v d = (if k \<in> set (map fst d) then d else d @ [(k, v)])"

record movie_genre =
  mg_movie_id :: "int option"
  mg_genre_id :: int

record genres_state =
  all_genres :: "(int \<times> string) list"
  movie_genres_list :: "movie_genre list"

text \<open>\<^verbatim>\<open>for genre in row['genres']\<close>\<close>

fun genres_of_row :: "int option \<Rightarrow> genre list \<Rightarrow> genres_state \<Rightarrow> genres_state" where
  "genres_of_row movie_id [] st = st"
| "genres_of_row movie_id (genre # rest) st =
     genres_of_row movie_id rest
       \<lparr> all_genres = add_unseen (genre_id genre) (genre_name genre) (all_genres st),
         movie_genres_list =
           movie_genres_list st @ [\<lparr> mg_movie_id = movie_id, mg_genre_id = genre_id genre \<rparr>] \<rparr>"

text \<open>\<^verbatim>\<open>for index, row in raw_data_df.iterrows()\<close>, first pass\<close>

fun genres_loop :: "'v combined_data list \<Rightarrow> genres_state \<Rightarrow> genres_state" where
  "genres_loop [] st = st"
| "genres_loop (row # rows) st = genres_loop rows (genres_of_row (tmdb_id row) (genres row) st)"

subsection \<open>Transform: people\<close>

record movie_cast =
  mc_movie_id :: "int option"
  mc_person_id :: int
  mc_character_name :: string

record people_state =
  all_people :: "(int \<times> string) list"
  movie_cast_list :: "movie_cast list"
  directors_map :: "int option \<rightharpoonup> int"

text \<open>
  \<^verbatim>\<open>for member in row['crew']\<close>: the first member whose job is \<^verbatim>\<open>'Director'\<close> is
  recorded and the loop is left (\<^verbatim>\<open>break\<close>: no recursive call).
\<close>

fun find_director :: "int option \<Rightarrow> crew_member list \<Rightarrow> people_state \<Rightarrow> people_state" where
  "find_director movie_id [] st = st"
| "find_director movie_id (member # rest) st =
     (if member_job member = ''Director''
      then st\<lparr> directors_map := (directors_map st)(movie_id \<mapsto> member_id member),
               all_people := add_unseen (member_id member) (member_name member) (all_people st) \<rparr>
      else find_director movie_id rest st)"

text \<open>\<^verbatim>\<open>for actor in row['cast'][:10]\<close>; the caller passes the slice.\<close>

fun cast_of_row :: "int option \<Rightarrow> cast_member list \<Rightarrow> people_state \<Rightarrow> people_state" where
  "cast_of_row movie_id [] st = st"
| "cast_of_row movie_id (actor # rest) st =
     cast_of_row movie_id rest
       (st\<lparr> all_people := add_unseen (actor_id actor) (actor_name actor) (all_people st),
            movie_cast_list :=
              movie_cast_list st @
                [\<lparr> mc_movie_id = movie_id, mc_person_id = actor_id actor,
                   mc_character_name = actor_character actor \<rparr>] \<rparr>)"

definition people_of_row :: "'v combined_data \<Rightarrow> people_state \<Rightarrow> people_state" where
  "people_of_row row st =
     cast_of_row (tmdb_id row) (take 10 (cast row)) (find_director (tmdb_id row) (crew row) st)"

text \<open>\<^verbatim>\<open>for index, row in raw_data_df.iterrows()\<close>, second pass\<close>

fun people_loop :: "'v combined_data list \<Rightarrow> people_state \<Rightarrow> people_state" where
  "people_loop [] st = st"
| "people_loop (row # rows) st = people_loop rows (people_of_row row st)"

subsection \<open>Transform: the movies table\<close>

text \<open>
  A row of \<^verbatim>\<open>movies_df\<close>. The release date and the director change type along the
  way (string to date, optional to integer), so both are parameters.
\<close>

record ('v, 'd, 'i) movie_row =
  m_id :: "int option"
  m_title :: "string option"
  m_overview :: "string option"
  m_release_date :: 'd
  m_vote_average :: "'v option"
  m_director_id :: 'i

text \<open>
  Lines 144 to 149: the five columns are copied, the director is looked up by
  \<^verbatim>\<open>movies_df['tmdb_id'].map(directors_map)\<close> (a movie id that is not a key gives a
  missing value), and \<^verbatim>\<open>tmdb_id\<close> is renamed to \<^verbatim>\<open>id\<close>. A frame built from no record
  at all has no column, and selecting the five columns from it raises \<^verbatim>\<open>KeyError\<close>.
\<close>

definition movies_frame ::
  "(int option \<rightharpoonup> int) \<Rightarrow> 'v combined_data list
     \<Rightarrow> error + ('v, string option, int option) movie_row list" where
  "movies_frame dm raw_data_df =
     (if raw_data_df = [] then Inl KeyError
      else Inr (map (\<lambda>row.
                  \<lparr> m_id = tmdb_id row, m_title = title row, m_overview = overview row,
                    m_release_date = release_date row, m_vote_average = vote_average row,
                    m_director_id = dm (tmdb_id row) \<rparr>) raw_data_df))"

text \<open>A conversion of every element of a column that raises at the first failure.\<close>

fun traverse :: "('a \<Rightarrow> error + 'b) \<Rightarrow> 'a list \<Rightarrow> error + 'b list" where
  "traverse f [] = Inr []"
| "traverse f (x # xs) =
     (case f x of
        Inl e \<Rightarrow> Inl e
      | Inr y \<Rightarrow> (case traverse f xs of Inl e \<Rightarrow> Inl e | Inr ys \<Rightarrow> Inr (y # ys)))"

text \<open>
  \<^verbatim>\<open>pd.to_datetime\<close> belongs to pandas, not to this repository: it is the parameter
  \<open>to_datetime\<close>, which converts one cell or raises.
\<close>

definition convert_release_date ::
  "(string option \<Rightarrow> error + 'd) \<Rightarrow> ('v, string option, 'i) movie_row
     \<Rightarrow> error + ('v, 'd, 'i) movie_row" where
  "convert_release_date to_datetime r =
     (case to_datetime (m_release_date r) of
        Inl e \<Rightarrow> Inl e
      | Inr d \<Rightarrow>
          Inr \<lparr> m_id = m_id r, m_title = m_title r, m_overview = m_overview r,
                m_release_date = d, m_vote_average = m_vote_average r,
                m_director_id = m_director_id r \<rparr>)"

text \<open>\<^verbatim>\<open>movies_df.dropna(subset=['director_id'], inplace=True)\<close>\<close>

definition dropna :: "('v, 'd, int option) movie_row list \<Rightarrow> ('v, 'd, int option) movie_row list" where
  "dropna rows = filter (\<lambda>r. m_director_id r \<noteq> None) rows"

text \<open>\<^verbatim>\<open>.astype(int)\<close> raises on a missing value.\<close>

definition director_astype_int ::
  "('v, 'd, int option) movie_row \<Rightarrow> error + ('v, 'd, int) movie_row" where
  "director_astype_int r =
     (case m_director_id r of
        None \<Rightarrow> Inl IntCastingNaNError
      | Some n \<Rightarrow>
          Inr \<lparr> m_id = m_id r, m_title = m_title r, m_overview = m_overview r,
                m_release_date = m_release_date r, m_vote_average = m_vote_average r,
                m_director_id = n \<rparr>)"

record ('v, 'd) tables =
  movies_df :: "('v, 'd, int) movie_row list"
  genres_df :: "(int \<times> string) list"
  people_df :: "(int \<times> string) list"
  movie_genres_df :: "movie_genre list"
  movie_cast_df :: "movie_cast list"

definition genres_pass :: "'v combined_data list \<Rightarrow> genres_state" where
  "genres_pass raw_data_df = genres_loop raw_data_df \<lparr> all_genres = [], movie_genres_list = [] \<rparr>"

definition people_pass :: "'v combined_data list \<Rightarrow> people_state" where
  "people_pass raw_data_df =
     people_loop raw_data_df \<lparr> all_people = [], movie_cast_list = [], directors_map = Map.empty \<rparr>"

text \<open>Phase 2 as a whole, in the order of the script.\<close>

definition transform ::
  "(string option \<Rightarrow> error + 'd) \<Rightarrow> 'v combined_data list \<Rightarrow> error + ('v, 'd) tables" where
  "transform to_datetime raw_data_df =
     (let gs = genres_pass raw_data_df;
          ps = people_pass raw_data_df
      in case movies_frame (directors_map ps) raw_data_df of
           Inl e \<Rightarrow> Inl e
         | Inr mapped \<Rightarrow>
             (case traverse (convert_release_date to_datetime) mapped of
                Inl e \<Rightarrow> Inl e
              | Inr dated \<Rightarrow>
                  (case traverse director_astype_int (dropna dated) of
                     Inl e \<Rightarrow> Inl e
                   | Inr final \<Rightarrow>
                       Inr \<lparr> movies_df = final,
                             genres_df = all_genres gs,
                             people_df = all_people ps,
                             movie_genres_df = movie_genres_list gs,
                             movie_cast_df = movie_cast_list ps \<rparr>)))"

subsection \<open>Load\<close>

datatype ('v, 'd) data_frame =
    MoviesFrame "('v, 'd, int) movie_row list"
  | IdNameFrame "(int \<times> string) list"
  | MovieGenresFrame "movie_genre list"
  | MovieCastFrame "movie_cast list"

text \<open>The database: the table stored under each name, if any.\<close>

type_synonym ('v, 'd) store = "string \<rightharpoonup> ('v, 'd) data_frame"

text \<open>
  \<^verbatim>\<open>df.to_sql(name, engine, if_exists='replace', index=False)\<close>. With
  \<^verbatim>\<open>if_exists='replace'\<close> pandas first drops the table of that name, then creates it
  from the columns of the frame, then inserts the rows; each step can raise.

  A frame without columns cannot be created (\<^verbatim>\<open>CREATE TABLE t ()\<close> is a syntax
  error): the old table is dropped and the call raises. The two junction frames are
  \<^verbatim>\<open>pd.DataFrame(list)\<close> of a list of dictionaries, which has no column when the list
  is empty; \<^verbatim>\<open>genres_df\<close> and \<^verbatim>\<open>people_df\<close> are built with \<^verbatim>\<open>columns=['id', 'name']\<close>
  and \<^verbatim>\<open>movies_df\<close> keeps its columns when every row is dropped.
\<close>

fun columnless :: "('v, 'd) data_frame \<Rightarrow> bool" where
  "columnless (MovieGenresFrame rows) = (rows = [])"
| "columnless (MovieCastFrame rows) = (rows = [])"
| "columnless (MoviesFrame rows) = False"
| "columnless (IdNameFrame rows) = False"

text \<open>
  Any other refusal comes from the database and is not decided by the script:
  \<open>write_error\<close> gives it for a table name and a frame, if any. A refusal before the
  drop leaves the old table; a refusal after the drop leaves under the name what the
  failed replacement left there (nothing, or a table with the rows inserted so far).
\<close>

datatype ('v, 'd) refusal =
    RefusedBeforeDrop error
  | RefusedAfterDrop error "('v, 'd) data_frame option"

text \<open>The database after the call, and the exception it raised, if any.\<close>

definition to_sql ::
  "(string \<Rightarrow> ('v, 'd) data_frame \<Rightarrow> ('v, 'd) refusal option) \<Rightarrow> ('v, 'd) data_frame \<Rightarrow> string
     \<Rightarrow> ('v, 'd) store \<Rightarrow> ('v, 'd) store \<times> error option" where
  "to_sql write_error df name db =
     (case write_error name df of
        Some (RefusedBeforeDrop e) \<Rightarrow> (db, Some e)
      | Some (RefusedAfterDrop e left) \<Rightarrow> (db(name := left), Some e)
      | None \<Rightarrow>
          if columnless df then (db(name := None), Some (DatabaseError ''table without columns''))
          else (db(name \<mapsto> df), None))"

text \<open>
  The body of the \<^verbatim>\<open>try\<close>: the writes in order; the first exception ends them, and
  the tables written before it stay. The result is the database and the exception
  caught, if any.
\<close>

fun to_sql_all ::
  "(string \<Rightarrow> ('v, 'd) data_frame \<Rightarrow> ('v, 'd) refusal option)
     \<Rightarrow> (string \<times> ('v, 'd) data_frame) list
     \<Rightarrow> ('v, 'd) store \<Rightarrow> ('v, 'd) store \<times> error option" where
  "to_sql_all write_error [] db = (db, None)"
| "to_sql_all write_error ((name, df) # rest) db =
     (case to_sql write_error df name db of
        (db', Some e) \<Rightarrow> (db', Some e)
      | (db', None) \<Rightarrow> to_sql_all write_error rest db')"

definition load ::
  "(string \<Rightarrow> ('v, 'd) data_frame \<Rightarrow> ('v, 'd) refusal option) \<Rightarrow> ('v, 'd) tables
     \<Rightarrow> ('v, 'd) store \<Rightarrow> ('v, 'd) store \<times> error option" where
  "load write_error t db =
     to_sql_all write_error
       [(''movies'', MoviesFrame (movies_df t)),
        (''genres'', IdNameFrame (genres_df t)),
        (''people'', IdNameFrame (people_df t)),
        (''movie_genres'', MovieGenresFrame (movie_genres_df t)),
        (''movie_cast'', MovieCastFrame (movie_cast_df t))] db"

subsection \<open>Report\<close>

datatype sql =
    Query1_top_movies
  | Query2_movies_per_genre
  | Query3_top_directors
  | Query4_director_avg_rating
  | Query5_movies_after_2001

text \<open>The dictionary \<^verbatim>\<open>queries\<close>, in its order of insertion.\<close>

definition queries :: "(string \<times> sql) list" where
  "queries =
     [(''1. The top 10 movies based on ratings'', Query1_top_movies),
      (''2. Number of films by genre'', Query2_movies_per_genre),
      (''3. The 5 most prolific directors'', Query3_top_directors),
      (''4. Average rating per director (with >1 film)'', Query4_director_avg_rating),
      (''5. Films after 2001'', Query5_movies_after_2001)]"

datatype 'r line =
    Connected
  | QueryResult string
  | NoResultsFound
  | ResultTable "'r list"
  | ErrorOccurred error
  | ConnectionClosed

record 'r report_state =
  conn_open :: bool
  executed :: "sql list"
  printed :: "'r line list"

text \<open>
  \<^verbatim>\<open>for title, query in queries.items()\<close>. \<open>read_sql_query\<close> is what the database
  answers to a query: rows, or an exception. An exception leaves the loop; the second
  component carries it to the handler.
\<close>

fun run_queries ::
  "(sql \<Rightarrow> error + 'r list) \<Rightarrow> (string \<times> sql) list \<Rightarrow> 'r report_state
     \<Rightarrow> 'r report_state \<times> error option" where
  "run_queries read_sql_query [] st = (st, None)"
| "run_queries read_sql_query ((heading, query) # rest) st =
     (let st1 = st\<lparr> printed := printed st @ [QueryResult heading],
                    executed := executed st @ [query] \<rparr>
      in case read_sql_query query of
           Inl e \<Rightarrow> (st1, Some e)
         | Inr df \<Rightarrow>
             run_queries read_sql_query rest
               (st1\<lparr> printed := printed st1 @ [if df = [] then NoResultsFound else ResultTable df] \<rparr>))"

text \<open>
  The \<^verbatim>\<open>try\<close> / \<^verbatim>\<open>except\<close> / \<^verbatim>\<open>finally\<close> of the report. \<open>connect_error\<close> is the
  exception of \<^verbatim>\<open>sqlite3.connect\<close>, if it raises; then \<^verbatim>\<open>conn\<close> is never bound and the
  \<^verbatim>\<open>finally\<close> block has nothing to close.
\<close>

definition report ::
  "error option \<Rightarrow> (sql \<Rightarrow> error + 'r list) \<Rightarrow> (string \<times> sql) list \<Rightarrow> 'r report_state" where
  "report connect_error read_sql_query qs =
     (case connect_error of
        Some e \<Rightarrow> \<lparr> conn_open = False, executed = [], printed = [ErrorOccurred e] \<rparr>
      | None \<Rightarrow>
          (let st1 = \<lparr> conn_open = True, executed = [], printed = [Connected] \<rparr>;
               (st2, raised) = run_queries read_sql_query qs st1;
               st3 = (case raised of
                        None \<Rightarrow> st2
                      | Some e \<Rightarrow> st2\<lparr> printed := printed st2 @ [ErrorOccurred e] \<rparr>)
           in st3\<lparr> conn_open := False, printed := printed st3 @ [ConnectionClosed] \<rparr>))"

subsection \<open>The fifth query\<close>

text \<open>
  \<^verbatim>\<open>SELECT title, release_date FROM movies
  WHERE strftime('%Y', release_date) > '2001' ORDER BY release_date DESC\<close>

  The stored release date is a calendar date or NULL (\<open>None\<close>). SQLite's
  \<^verbatim>\<open>strftime('%Y', x)\<close> is NULL for NULL and for a date outside years 0000 to 9999,
  and the year as four digits otherwise; \<^verbatim>\<open>>\<close> compares the two texts byte by byte,
  and a comparison with NULL does not select the row.
\<close>

record date =
  year :: nat
  month :: nat
  day :: nat

definition valid_date :: "date \<Rightarrow> bool" where
  "valid_date d = (year d \<le> 9999 \<and> 1 \<le> month d \<and> month d \<le> 12 \<and> 1 \<le> day d \<and> day d \<le> 31)"

definition digit_char :: "nat \<Rightarrow> char" where
  "digit_char n = char_of (48 + n)"

definition strftime_Y :: "date option \<Rightarrow> string option" where
  "strftime_Y x =
     (case x of
        None \<Rightarrow> None
      | Some d \<Rightarrow>
          if valid_date d
          then Some [digit_char (year d div 1000), digit_char (year d div 100 mod 10),
                     digit_char (year d div 10 mod 10), digit_char (year d mod 10)]
          else None)"

definition after_2001 :: "('v, date option, 'i) movie_row \<Rightarrow> bool" where
  "after_2001 m =
     (case strftime_Y (m_release_date m) of None \<Rightarrow> False | Some y \<Rightarrow> ''2001'' < y)"

definition date_key :: "date option \<Rightarrow> (nat \<times> nat \<times> nat) option" where
  "date_key x = (case x of None \<Rightarrow> None | Some d \<Rightarrow> Some (year d, month d, day d))"

text \<open>
  \<^verbatim>\<open>ORDER BY release_date DESC\<close>: later dates first; rows of the same date stay in
  the order in which the table holds them.
\<close>

definition order_by_release_date_desc ::
  "('v, date option, 'i) movie_row list \<Rightarrow> ('v, date option, 'i) movie_row list" where
  "order_by_release_date_desc rows =
     rev (sort_key (\<lambda>m. date_key (m_release_date m)) (rev rows))"

definition query5_movies_after_2001 ::
  "('v, date option, 'i) movie_row list \<Rightarrow> (string option \<times> date option) list" where
  "query5_movies_after_2001 movies =
     map (\<lambda>m. (m_title m, m_release_date m))
       (order_by_release_date_desc (filter after_2001 movies))"

section \<open>Notions used in the statements\<close>

text \<open>No request for the details or the credits of movie 0 is among those sent.\<close>

definition no_fetch_of_zero :: "request list \<Rightarrow> bool" where
  "no_fetch_of_zero sent = (GetDetails 0 \<notin> set sent \<and> GetCredits 0 \<notin> set sent)"

text \<open>The row that line 132 appends for an actor of a movie.\<close>

definition cast_row :: "int option \<Rightarrow> cast_member \<Rightarrow> movie_cast" where
  "cast_row movie_id actor =
     \<lparr> mc_movie_id = movie_id, mc_person_id = actor_id actor,
       mc_character_name = actor_character actor \<rparr>"

definition is_director :: "crew_member \<Rightarrow> bool" where
  "is_director member = (member_job member = ''Director'')"


text \<open>
  The genre ids met during the first pass, each with the name it carried there, in the
  order in which the pass meets them; likewise the person ids met during the second
  pass: for each movie its director, if one is found, and then its first ten actors.
\<close>

definition genre_occurrences :: "'v combined_data list \<Rightarrow> (int \<times> string) list" where
  "genre_occurrences rows =
     concat (map (\<lambda>row. map (\<lambda>g. (genre_id g, genre_name g)) (genres row)) rows)"

definition person_occurrences_of_row :: "'v combined_data \<Rightarrow> (int \<times> string) list" where
  "person_occurrences_of_row row =
     (case find is_director (crew row) of
        None \<Rightarrow> []
      | Some member \<Rightarrow> [(member_id member, member_name member)])
     @ map (\<lambda>a. (actor_id a, actor_name a)) (take 10 (cast row))"

definition person_occurrences :: "'v combined_data list \<Rightarrow> (int \<times> string) list" where
  "person_occurrences rows = concat (map person_occurrences_of_row rows)"




text \<open>
  What a sequence of writes assigns to table names, in order, up to the first exception:
  a frame to a name it wrote, and to the name of a write refused after the drop what
  the refusal left there. The exception that ends the sequence, if any.
\<close>

fun assigned ::
  "(string \<Rightarrow> ('v, 'd) data_frame \<Rightarrow> ('v, 'd) refusal option)
     \<Rightarrow> (string \<times> ('v, 'd) data_frame) list
     \<Rightarrow> (string \<times> ('v, 'd) data_frame option) list" where
  "assigned write_error [] = []"
| "assigned write_error ((name, df) # rest) =
     (case write_error name df of
        Some (RefusedBeforeDrop e) \<Rightarrow> []
      | Some (RefusedAfterDrop e left) \<Rightarrow> [(name, left)]
      | None \<Rightarrow>
          if columnless df then [(name, None)]
          else (name, Some df) # assigned write_error rest)"

fun first_error ::
  "(string \<Rightarrow> ('v, 'd) data_frame \<Rightarrow> ('v, 'd) refusal option)
     \<Rightarrow> (string \<times> ('v, 'd) data_frame) list \<Rightarrow> error option" where
  "first_error write_error [] = None"
| "first_error write_error ((name, df) # rest) =
     (case write_error name df of
        Some (RefusedBeforeDrop e) \<Rightarrow> Some e
      | Some (RefusedAfterDrop e left) \<Rightarrow> Some e
      | None \<Rightarrow>
          if columnless df then Some (DatabaseError ''table without columns'')
          else first_error write_error rest)"

text \<open>The database after a list of assignments.\<close>

fun assign_all ::
  "(string \<times> ('v, 'd) data_frame option) list \<Rightarrow> ('v, 'd) store \<Rightarrow> ('v, 'd) store" where
  "assign_all [] db = db"
| "assign_all ((name, v) # rest) db = assign_all rest (db(name := v))"

text \<open>A stored movie has a release date and its year is greater than 2001.\<close>

definition released_after_2001 :: "('v, date option, 'i) movie_row \<Rightarrow> bool" where
  "released_after_2001 m = (case m_release_date m of None \<Rightarrow> False | Some d \<Rightarrow> 2001 < year d)"

text \<open>
  The first release date is not before the second: the calendar order of year, month
  and day, with a missing date before every date.
\<close>

definition on_or_after :: "date option \<Rightarrow> date option \<Rightarrow> bool" where
  "on_or_after x y =
     (case y of
        None \<Rightarrow> True
      | Some e \<Rightarrow>
          (case x of
             None \<Rightarrow> False
           | Some d \<Rightarrow>
               year e < year d
               \<or> (year e = year d
                   \<and> (month e < month d \<or> (month e = month d \<and> day e \<le> day d)))))"

section \<open>Example inputs\<close>


text \<open>
  An API whose first page lists a summary with id 0 and a summary with id 1, and that
  answers every request for details and credits.
\<close>

definition zero_summary :: movie_summary where
  "zero_summary = \<lparr> summary_id = Some 0, summary_title = Some ''Zero'' \<rparr>"

definition alpha_summary :: movie_summary where
  "alpha_summary = \<lparr> summary_id = Some 1, summary_title = Some ''Alpha'' \<rparr>"

definition drama :: genre where
  "drama = \<lparr> genre_id = 18, genre_name = ''Drama'' \<rparr>"

definition example_api :: "rat api" where
  "example_api =
     \<lparr> top_rated = (\<lambda>page.
         \<lparr> page_status_code = 200,
           page_results = (if page = 1 then Some [zero_summary, alpha_summary] else None) \<rparr>),
       movie = (\<lambda>movie_id.
         \<lparr> details_status_code = 200,
           details_body =
             \<lparr> details_id = Some movie_id, details_title = Some ''Alpha'',
               details_overview = Some ''First'', details_release_date = Some ''2002-06-15'',
               details_vote_average = Some (87 / 10), details_genres = Some [drama],
               details_other_keys = 20 \<rparr> \<rparr>),
       movie_credits = (\<lambda>movie_id.
         \<lparr> credits_status_code = 200,
           credits_body =
             \<lparr> credits_cast =
                 Some [\<lparr> actor_id = 10, actor_name = ''Ann'', actor_character = ''Lead'' \<rparr>],
               credits_crew =
                 Some [\<lparr> member_job = ''Director'', member_id = 5, member_name = ''Dee'' \<rparr>],
               credits_other_keys = 1 \<rparr> \<rparr>) \<rparr>"

text \<open>
  Raw records: \<open>alpha\<close> has a director; \<open>beta\<close> has none; \<open>alpha_again\<close> carries the
  id of \<open>alpha\<close> and has no crew; \<open>gamma\<close> repeats genre 18 and person 5 under other
  names.
\<close>

definition alpha :: "rat combined_data" where
  "alpha =
     \<lparr> tmdb_id = Some 1, title = Some ''Alpha'', overview = Some ''First'',
       release_date = Some ''2002-06-15'', vote_average = Some (87 / 10),
       genres = [drama],
       cast = [\<lparr> actor_id = 10, actor_name = ''Ann'', actor_character = ''Lead'' \<rparr>],
       crew = [\<lparr> member_job = ''Director'', member_id = 5, member_name = ''Dee'' \<rparr>] \<rparr>"

definition beta :: "rat combined_data" where
  "beta =
     \<lparr> tmdb_id = Some 2, title = Some ''Beta'', overview = Some ''Second'',
       release_date = Some ''2001-12-31'', vote_average = Some (85 / 10),
       genres = [drama],
       cast = [\<lparr> actor_id = 11, actor_name = ''Bob'', actor_character = ''Hero'' \<rparr>],
       crew = [\<lparr> member_job = ''Writer'', member_id = 6, member_name = ''Will'' \<rparr>] \<rparr>"


definition gamma :: "rat combined_data" where
  "gamma =
     \<lparr> tmdb_id = Some 3, title = Some ''Gamma'', overview = Some ''Third'',
       release_date = Some ''2000-01-01'', vote_average = Some (84 / 10),
       genres = [\<lparr> genre_id = 18, genre_name = ''Drame'' \<rparr>],
       cast = [\<lparr> actor_id = 5, actor_name = ''D. Dee'', actor_character = ''Cameo'' \<rparr>],
       crew = [\<lparr> member_job = ''Director'', member_id = 7, member_name = ''Gil'' \<rparr>] \<rparr>"

definition alpha_row :: "(rat, string option, int) movie_row" where
  "alpha_row =
     \<lparr> m_id = Some 1, m_title = Some ''Alpha'', m_overview = Some ''First'',
       m_release_date = Some ''2002-06-15'', m_vote_average = Some (87 / 10),
       m_director_id = 5 \<rparr>"

text \<open>The tables that normalization makes of \<open>[alpha, beta]\<close>.\<close>

definition alpha_beta_tables :: "(rat, string option) tables" where
  "alpha_beta_tables =
     \<lparr> movies_df = [alpha_row],
       genres_df = [(18, ''Drama'')],
       people_df = [(5, ''Dee''), (10, ''Ann''), (11, ''Bob'')],
       movie_genres_df =
         [\<lparr> mg_movie_id = Some 1, mg_genre_id = 18 \<rparr>,
          \<lparr> mg_movie_id = Some 2, mg_genre_id = 18 \<rparr>],
       movie_cast_df =
         [\<lparr> mc_movie_id = Some 1, mc_person_id = 10, mc_character_name = ''Lead'' \<rparr>,
          \<lparr> mc_movie_id = Some 2, mc_person_id = 11, mc_character_name = ''Hero'' \<rparr>] \<rparr>"

text \<open>The tables that normalization makes of \<open>[alpha, gamma]\<close>.\<close>

definition alpha_gamma_tables :: "(rat, string option) tables" where
  "alpha_gamma_tables =
     \<lparr> movies_df =
         [alpha_row,
          \<lparr> m_id = Some 3, m_title = Some ''Gamma'', m_overview = Some ''Third'',
            m_release_date = Some ''2000-01-01'', m_vote_average = Some (84 / 10),
            m_director_id = 7 \<rparr>],
       genres_df = [(18, ''Drama'')],
       people_df = [(5, ''Dee''), (10, ''Ann''), (7, ''Gil'')],
       movie_genres_df =
         [\<lparr> mg_movie_id = Some 1, mg_genre_id = 18 \<rparr>,
          \<lparr> mg_movie_id = Some 3, mg_genre_id = 18 \<rparr>],
       movie_cast_df =
         [\<lparr> mc_movie_id = Some 1, mc_person_id = 10, mc_character_name = ''Lead'' \<rparr>,
          \<lparr> mc_movie_id = Some 3, mc_person_id = 5, mc_character_name = ''Cameo'' \<rparr>] \<rparr>"

text \<open>A record with twelve actors, billed 1 to 12.\<close>

definition twelve_cast :: "rat combined_data" where
  "twelve_cast =
     \<lparr> tmdb_id = Some 4, title = Some ''Delta'', overview = None,
       release_date = None, vote_average = None, genres = [],
       cast = map (\<lambda>n. \<lparr> actor_id = int n, actor_name = ''Actor'', actor_character = ''Role'' \<rparr>)
                [1, 2, 3, 4, 5, 6, 7, 8, 9, 10, 11, 12],
       crew = [] \<rparr>"

text \<open>A record that credits a writer and then two directors.\<close>

definition two_directors :: "rat combined_data" where
  "two_directors =
     \<lparr> tmdb_id = Some 9, title = Some ''Epsilon'', overview = None,
       release_date = None, vote_average = None, genres = [], cast = [],
       crew =
         [\<lparr> member_job = ''Writer'', member_id = 4, member_name = ''W'' \<rparr>,
          \<lparr> member_job = ''Director'', member_id = 5, member_name = ''A'' \<rparr>,
          \<lparr> member_job = ''Director'', member_id = 6, member_name = ''B'' \<rparr>] \<rparr>"

definition empty_people :: people_state where
  "empty_people = \<lparr> all_people = [], movie_cast_list = [], directors_map = Map.empty \<rparr>"



text \<open>A database that accepts every write.\<close>

definition no_write_error :: "string \<Rightarrow> ('v, 'd) data_frame \<Rightarrow> ('v, 'd) refusal option" where
  "no_write_error name df = None"

text \<open>A database that answers every query with one row, except the third, which it refuses.\<close>

definition third_query_fails :: "sql \<Rightarrow> error + nat list" where
  "third_query_fails q =
     (if q = Query3_top_directors then Inl (DatabaseError ''no such table: people'')
      else Inr [1])"

text \<open>A stored movies table with releases on 2000-01-01, 2001-12-31 and 2002-06-15.\<close>

definition released :: "string \<Rightarrow> nat \<Rightarrow> nat \<Rightarrow> nat \<Rightarrow> (rat, date option, int) movie_row" where
  "released name y m d =
     \<lparr> m_id = Some 1, m_title = Some name, m_overview = None,
       m_release_date = Some \<lparr> year = y, month = m, day = d \<rparr>,
       m_vote_average = None, m_director_id = 5 \<rparr>"

definition three_releases :: "(rat, date option, int) movie_row list" where
  "three_releases =
     [released ''Millennium'' 2000 1 1, released ''Eve'' 2001 12 31, released ''Summer'' 2002 6 15]"

text \<open>
  The tables of a dataset in which no movie has a genre or an actor, and a database
  that holds the junction tables of an earlier run.
\<close>

definition genreless_tables :: "(rat, string option) tables" where
  "genreless_tables =
     \<lparr> movies_df = [alpha_row], genres_df = [], people_df = [(5, ''Dee'')],
       movie_genres_df = [], movie_cast_df = [] \<rparr>"

definition earlier_store :: "(rat, string option) store" where
  "earlier_store =
     [''movie_genres'' \<mapsto> MovieGenresFrame [\<lparr> mg_movie_id = Some 7, mg_genre_id = 18 \<rparr>],
      ''movie_cast'' \<mapsto>
        MovieCastFrame [\<lparr> mc_movie_id = Some 7, mc_person_id = 3, mc_character_name = ''Old'' \<rparr>]]"

text \<open>
  A stored movies table with six releases, not in order of date; two of them share the
  date 2005-03-01.
\<close>

definition six_releases :: "(rat, date option, int) movie_row list" where
  "six_releases =
     [released ''Spring'' 2005 3 1, released ''Millennium'' 2000 1 1,
      released ''Fireworks'' 2010 7 4, released ''Summer'' 2002 6 15,
      released ''March'' 2005 3 1, released ''Eve'' 2001 12 31]"

section \<open>The listing\<close>



section \<open>The extraction loop\<close>

lemma extract_loop_append:
  "extract_loop api (xs @ ys) st = extract_loop api ys (extract_loop api xs st)"
  by (induction xs arbitrary: st) simp_all

lemma extract_step_skip:
  "summary_id s = None \<or> summary_id s = Some 0 \<Longrightarrow> extract_step api s st = st"
  by (auto simp: extract_step_def)

lemma fetch_pages_no_zero:
  "no_fetch_of_zero sent \<Longrightarrow> no_fetch_of_zero (snd (fetch_pages get pages acc sent))"
  by (induction pages arbitrary: acc sent) (auto simp: Let_def no_fetch_of_zero_def)

lemma extract_step_no_zero:
  "no_fetch_of_zero (snd st) \<Longrightarrow> no_fetch_of_zero (snd (extract_step api s st))"
  by (auto simp: extract_step_def fetch_movie_details_def Let_def no_fetch_of_zero_def
           split: option.splits prod.splits)

lemma extract_loop_no_zero:
  "no_fetch_of_zero (snd st) \<Longrightarrow> no_fetch_of_zero (snd (extract_loop api xs st))"
  by (induction xs arbitrary: st) (simp_all add: extract_step_no_zero)

lemma extract_phase_no_zero: "no_fetch_of_zero (snd (extract_phase api))"
proof -
  have "no_fetch_of_zero (snd (fetch_top_movies (top_rated api)))"
    unfolding fetch_top_movies_def by (rule fetch_pages_no_zero) (simp add: no_fetch_of_zero_def)
  then show ?thesis
    by (auto simp: extract_phase_def split: prod.splits intro: extract_loop_no_zero)
qed

text \<open>
  Claim C10. A movie summary whose id is missing or is 0 is skipped: its turn of the
  loop changes neither the collected records nor the requests sent (no details and no
  credits request is issued for it), so the whole loop ends in the state it would reach
  on the listing without that summary, and every table, being computed from the
  collected records, is what it would be without it. Over a whole run no request for
  the details or the credits of id 0 is ever sent.
\<close>

theorem falsy_id_skipped:
  assumes "summary_id s = None \<or> summary_id s = Some 0"
  shows "extract_step api s st = st
       \<and> extract_loop api (pre @ s # post) st = extract_loop api (pre @ post) st
       \<and> no_fetch_of_zero (snd (extract_phase api))"
  using assms by (simp add: extract_loop_append extract_step_skip extract_phase_no_zero)

lemma example_api_alpha: "combine (details_body (movie example_api 1))
    (credits_body (movie_credits example_api 1)) = alpha"
  by (simp add: example_api_def combine_def alpha_def list_or_empty_def)

theorem falsy_id_skipped_witness:
  "summary_id zero_summary = Some 0
   \<and> extract_loop example_api ([] @ zero_summary # [alpha_summary]) ([], []) =
       extract_loop example_api ([] @ [alpha_summary]) ([], [])
   \<and> extract_phase example_api =
       ([alpha], [GetTopRated 1, GetTopRated 2, GetTopRated 3, GetDetails 1, GetCredits 1])"
proof -
  have skipped: "summary_id zero_summary = None \<or> summary_id zero_summary = Some 0"
    by (simp add: zero_summary_def)
  have step: "extract_step example_api alpha_summary st =
      (fst st @ [alpha], snd st @ [GetDetails 1, GetCredits 1])" for st
    using example_api_alpha
    by (simp add: extract_step_def alpha_summary_def fetch_movie_details_def Let_def
          details_truthy_def credits_truthy_def)
       (simp add: example_api_def)
  have listing: "fetch_top_movies (top_rated example_api) =
      ([zero_summary, alpha_summary], [GetTopRated 1, GetTopRated 2, GetTopRated 3])"
    by (simp add: fetch_top_movies_def example_api_def results_or_empty_def)
  from falsy_id_skipped [OF skipped, of example_api "([], [])" "[]" "[alpha_summary]"]
  have "extract_step example_api zero_summary ([], []) = ([], [])"
    and same: "extract_loop example_api ([] @ zero_summary # [alpha_summary]) ([], []) =
      extract_loop example_api ([] @ [alpha_summary]) ([], [])"
    by simp_all
  have "extract_phase example_api =
      ([alpha], [GetTopRated 1, GetTopRated 2, GetTopRated 3, GetDetails 1, GetCredits 1])"
    using falsy_id_skipped [OF skipped, of example_api] 
    by (simp add: extract_phase_def listing step)
  with same show ?thesis by (simp add: zero_summary_def)
qed

section \<open>Cast rows and the director\<close>

lemma find_director_cast [simp]:
  "movie_cast_list (find_director movie_id members st) = movie_cast_list st"
  by (induction members) simp_all

lemma cast_of_row_directors [simp]:
  "directors_map (cast_of_row movie_id actors st) = directors_map st"
  by (induction actors arbitrary: st) simp_all

lemma cast_of_row_cast:
  "movie_cast_list (cast_of_row movie_id actors st) =
     movie_cast_list st @ map (cast_row movie_id) actors"
  by (induction actors arbitrary: st) (simp_all add: cast_row_def)

lemma people_of_row_cast:
  "movie_cast_list (people_of_row row st) =
     movie_cast_list st @ map (cast_row (tmdb_id row)) (take 10 (cast row))"
  by (simp add: people_of_row_def cast_of_row_cast)

lemma people_loop_cast:
  "movie_cast_list (people_loop rows st) =
     movie_cast_list st @
       concat (map (\<lambda>row. map (cast_row (tmdb_id row)) (take 10 (cast row))) rows)"
  by (induction rows arbitrary: st) (simp_all add: people_of_row_cast)

text \<open>
  Claim C4. Processing a movie record appends to the cast list one row for each of the
  first ten entries of its cast, in the order of the cast list, and nothing else; that
  is \<open>min 10 (length (cast row))\<close> rows. Over the whole pass the cast table is the
  concatenation of these blocks, movie by movie.
\<close>

theorem cast_rows_first_ten:
  "movie_cast_list (people_of_row row st) =
     movie_cast_list st @ map (cast_row (tmdb_id row)) (take 10 (cast row))
   \<and> length (map (cast_row (tmdb_id row)) (take 10 (cast row))) = min 10 (length (cast row))
   \<and> movie_cast_list (people_pass rows) =
       concat (map (\<lambda>row. map (cast_row (tmdb_id row)) (take 10 (cast row))) rows)"
  by (simp add: people_of_row_cast people_pass_def people_loop_cast min.commute)

theorem cast_rows_first_ten_witness:
  "length (cast twelve_cast) = 12
   \<and> map mc_person_id (movie_cast_list (people_of_row twelve_cast empty_people)) =
       [1, 2, 3, 4, 5, 6, 7, 8, 9, 10]"
proof -
  have rows: "movie_cast_list (people_of_row twelve_cast empty_people) =
      movie_cast_list empty_people
        @ map (cast_row (tmdb_id twelve_cast)) (take 10 (cast twelve_cast))"
    using cast_rows_first_ten [of twelve_cast empty_people "[]"] by (rule conjunct1)
  show ?thesis
    unfolding rows by (simp add: twelve_cast_def empty_people_def cast_row_def)
qed

lemma find_director_map:
  "directors_map (find_director movie_id members st) =
     (case find is_director members of
        None \<Rightarrow> directors_map st
      | Some member \<Rightarrow> (directors_map st)(movie_id \<mapsto> member_id member))"
  by (induction members) (simp_all add: is_director_def)

lemma people_of_row_directors:
  "directors_map (people_of_row row st) =
     (case find is_director (crew row) of
        None \<Rightarrow> directors_map st
      | Some member \<Rightarrow> (directors_map st)(tmdb_id row \<mapsto> member_id member))"
  by (simp add: people_of_row_def find_director_map)

lemma find_first:
  "\<forall>x\<in>set pre. \<not> P x \<Longrightarrow> P m \<Longrightarrow> find P (pre @ m # post) = Some m"
  by (induction pre) simp_all

text \<open>
  Claim C5. When the crew of a movie record is \<open>pre @ member # post\<close>, no member of
  \<open>pre\<close> is a director and \<open>member\<close> is one, the director recorded for the movie is
  \<open>member\<close>, whatever \<open>post\<close> holds: the first director in listed order wins and later
  crew entries change nothing. For a writer followed by directors 5 and 6 the recorded
  director is 5.
\<close>

theorem first_director_wins:
  assumes "crew row = pre @ member # post"
    and "\<forall>x\<in>set pre. member_job x \<noteq> ''Director''"
    and "member_job member = ''Director''"
  shows "directors_map (people_of_row row st) (tmdb_id row) = Some (member_id member)"
  using assms by (simp add: people_of_row_directors find_first is_director_def)

theorem first_director_wins_witness:
  "crew two_directors =
     [\<lparr> member_job = ''Writer'', member_id = 4, member_name = ''W'' \<rparr>]
     @ \<lparr> member_job = ''Director'', member_id = 5, member_name = ''A'' \<rparr>
     # [\<lparr> member_job = ''Director'', member_id = 6, member_name = ''B'' \<rparr>]
   \<and> directors_map (people_of_row two_directors empty_people) (tmdb_id two_directors) = Some 5"
proof -
  have c: "crew two_directors =
     [\<lparr> member_job = ''Writer'', member_id = 4, member_name = ''W'' \<rparr>]
     @ \<lparr> member_job = ''Director'', member_id = 5, member_name = ''A'' \<rparr>
     # [\<lparr> member_job = ''Director'', member_id = 6, member_name = ''B'' \<rparr>]"
    by (simp add: two_directors_def)
  from first_director_wins [OF c, of empty_people] show ?thesis
    using c by simp
qed

section \<open>The genre and person tables\<close>

lemma add_unseen_distinct:
  "distinct (map fst d) \<Longrightarrow> distinct (map fst (add_unseen k v d))"
  by (simp add: add_unseen_def)

lemma add_unseen_map_of: "map_of (add_unseen k v d) = map_of (d @ [(k, v)])"
proof (cases "k \<in> set (map fst d)")
  case True
  then have "k \<in> dom (map_of d)" by (simp add: dom_map_of_conv_image_fst)
  then have "map_of [(k, v)] ++ map_of d = map_of d"
    by (auto simp: map_add_def fun_eq_iff split: option.splits)
  with True show ?thesis by (simp add: add_unseen_def)
next
  case False
  then show ?thesis by (simp add: add_unseen_def)
qed

lemma map_of_append_cong:
  "map_of d = map_of d' \<Longrightarrow> map_of (d @ xs) = map_of (d' @ xs)"
  by simp

lemma genres_of_row_distinct:
  "distinct (map fst (all_genres st)) \<Longrightarrow>
   distinct (map fst (all_genres (genres_of_row movie_id gs st)))"
  by (induction gs arbitrary: st) (simp_all add: add_unseen_distinct)

lemma genres_of_row_map_of:
  "map_of (all_genres (genres_of_row movie_id gs st)) =
     map_of (all_genres st @ map (\<lambda>g. (genre_id g, genre_name g)) gs)"
proof (induction gs arbitrary: st)
  case Nil
  show ?case by simp
next
  case (Cons g gs)
  show ?case
    by (simp add: Cons.IH add_unseen_map_of del: map_of_append)
       (simp add: add_unseen_map_of)
qed

lemma genres_loop_distinct:
  "distinct (map fst (all_genres st)) \<Longrightarrow> distinct (map fst (all_genres (genres_loop rows st)))"
  by (induction rows arbitrary: st) (simp_all add: genres_of_row_distinct)

lemma genres_loop_map_of:
  "map_of (all_genres (genres_loop rows st)) = map_of (all_genres st @ genre_occurrences rows)"
proof (induction rows arbitrary: st)
  case Nil
  show ?case by (simp add: genre_occurrences_def)
next
  case (Cons row rows)
  have "map_of (all_genres (genres_loop (row # rows) st)) =
        map_of (all_genres (genres_of_row (tmdb_id row) (genres row) st) @ genre_occurrences rows)"
    by (simp add: Cons.IH del: map_of_append)
  also have "\<dots> = map_of ((all_genres st @ map (\<lambda>g. (genre_id g, genre_name g)) (genres row))
                      @ genre_occurrences rows)"
    by (rule map_of_append_cong) (rule genres_of_row_map_of)
  finally show ?case by (simp add: genre_occurrences_def)
qed


lemma find_director_people_distinct:
  "distinct (map fst (all_people st)) \<Longrightarrow>
   distinct (map fst (all_people (find_director movie_id members st)))"
  by (induction members) (simp_all add: add_unseen_distinct)

lemma find_director_people_map_of:
  "map_of (all_people (find_director movie_id members st)) =
     map_of (all_people st @
       (case find is_director members of
          None \<Rightarrow> []
        | Some member \<Rightarrow> [(member_id member, member_name member)]))"
  by (induction members) (simp_all add: is_director_def add_unseen_map_of del: map_of_append)

lemma cast_of_row_people_distinct:
  "distinct (map fst (all_people st)) \<Longrightarrow>
   distinct (map fst (all_people (cast_of_row movie_id actors st)))"
  by (induction actors arbitrary: st) (simp_all add: add_unseen_distinct)

lemma cast_of_row_people_map_of:
  "map_of (all_people (cast_of_row movie_id actors st)) =
     map_of (all_people st @ map (\<lambda>a. (actor_id a, actor_name a)) actors)"
proof (induction actors arbitrary: st)
  case Nil
  show ?case by simp
next
  case (Cons a actors)
  show ?case
    by (simp add: Cons.IH add_unseen_map_of del: map_of_append)
       (simp add: add_unseen_map_of)
qed

lemma people_of_row_distinct:
  "distinct (map fst (all_people st)) \<Longrightarrow> distinct (map fst (all_people (people_of_row row st)))"
  by (simp add: people_of_row_def cast_of_row_people_distinct find_director_people_distinct)

lemma people_of_row_map_of:
  "map_of (all_people (people_of_row row st)) =
     map_of (all_people st @ person_occurrences_of_row row)"
proof -
  have "map_of (all_people (people_of_row row st)) =
        map_of (all_people (find_director (tmdb_id row) (crew row) st)
                @ map (\<lambda>a. (actor_id a, actor_name a)) (take 10 (cast row)))"
    unfolding people_of_row_def by (rule cast_of_row_people_map_of)
  also have "\<dots> = map_of ((all_people st @
       (case find is_director (crew row) of
          None \<Rightarrow> []
        | Some member \<Rightarrow> [(member_id member, member_name member)]))
       @ map (\<lambda>a. (actor_id a, actor_name a)) (take 10 (cast row)))"
    by (rule map_of_append_cong) (rule find_director_people_map_of)
  finally show ?thesis by (simp add: person_occurrences_of_row_def)
qed

lemma people_loop_distinct:
  "distinct (map fst (all_people st)) \<Longrightarrow> distinct (map fst (all_people (people_loop rows st)))"
  by (induction rows arbitrary: st) (simp_all add: people_of_row_distinct)

lemma people_loop_map_of:
  "map_of (all_people (people_loop rows st)) = map_of (all_people st @ person_occurrences rows)"
proof (induction rows arbitrary: st)
  case Nil
  show ?case by (simp add: person_occurrences_def)
next
  case (Cons row rows)
  have "map_of (all_people (people_loop (row # rows) st)) =
        map_of (all_people (people_of_row row st) @ person_occurrences rows)"
    by (simp add: Cons.IH del: map_of_append)
  also have "\<dots> = map_of ((all_people st @ person_occurrences_of_row row) @ person_occurrences rows)"
    by (rule map_of_append_cong) (rule people_of_row_map_of)
  finally show ?case by (simp add: person_occurrences_def)
qed

lemma transform_Inr:
  assumes "transform to_datetime rows = Inr t"
  obtains mapped dated where
    "movies_frame (directors_map (people_pass rows)) rows = Inr mapped"
    "traverse (convert_release_date to_datetime) mapped = Inr dated"
    "traverse director_astype_int (dropna dated) = Inr (movies_df t)"
    "genres_df t = all_genres (genres_pass rows)"
    "people_df t = all_people (people_pass rows)"
    "movie_genres_df t = movie_genres_list (genres_pass rows)"
    "movie_cast_df t = movie_cast_list (people_pass rows)"
  using assms unfolding transform_def Let_def
  by (auto split: sum.splits)

lemmas transform_defs =
  transform_def genres_pass_def people_pass_def people_of_row_def movies_frame_def
  convert_release_date_def dropna_def director_astype_int_def add_unseen_def

lemma transform_alpha_beta: "transform Inr [alpha, beta] = Inr alpha_beta_tables"
  by (simp add: transform_defs alpha_def beta_def drama_def alpha_beta_tables_def alpha_row_def)

lemma transform_alpha_gamma: "transform Inr [alpha, gamma] = Inr alpha_gamma_tables"
  by (simp add: transform_defs alpha_def gamma_def drama_def alpha_gamma_tables_def alpha_row_def)

text \<open>
  Claim C6. After a normalization that completes, the genre table and the person table
  hold each id once, and the name stored under an id is the name it carried where the
  pass first met it: looking an id up in the table gives what looking it up in the
  list of occurrences gives, and \<open>map_of\<close> returns the first pair with the key.
\<close>

theorem tables_first_seen:
  assumes "transform to_datetime rows = Inr t"
  shows "distinct (map fst (genres_df t)) \<and> map_of (genres_df t) = map_of (genre_occurrences rows)
       \<and> distinct (map fst (people_df t)) \<and> map_of (people_df t) = map_of (person_occurrences rows)"
proof -
  from assms have g: "genres_df t = all_genres (genres_pass rows)"
    and p: "people_df t = all_people (people_pass rows)"
    by (auto elim: transform_Inr)
  have "distinct (map fst (genres_df t))"
    unfolding g genres_pass_def by (rule genres_loop_distinct) simp
  moreover have "map_of (genres_df t) = map_of (genre_occurrences rows)"
    unfolding g genres_pass_def genres_loop_map_of by simp
  moreover have "distinct (map fst (people_df t))"
    unfolding p people_pass_def by (rule people_loop_distinct) simp
  moreover have "map_of (people_df t) = map_of (person_occurrences rows)"
    unfolding p people_pass_def people_loop_map_of by simp
  ultimately show ?thesis by simp
qed

theorem tables_first_seen_witness:
  "transform Inr [alpha, gamma] = Inr alpha_gamma_tables
   \<and> genre_occurrences [alpha, gamma] = [(18, ''Drama''), (18, ''Drame'')]
   \<and> person_occurrences [alpha, gamma] =
       [(5, ''Dee''), (10, ''Ann''), (7, ''Gil''), (5, ''D. Dee'')]
   \<and> genres_df alpha_gamma_tables = [(18, ''Drama'')]
   \<and> map_of (people_df alpha_gamma_tables) 5 = Some ''Dee''
   \<and> distinct (map fst (people_df alpha_gamma_tables))"
proof -
  have occ: "person_occurrences [alpha, gamma] =
       [(5, ''Dee''), (10, ''Ann''), (7, ''Gil''), (5, ''D. Dee'')]"
    by (simp add: person_occurrences_def person_occurrences_of_row_def is_director_def
          alpha_def gamma_def)
  have gocc: "genre_occurrences [alpha, gamma] = [(18, ''Drama''), (18, ''Drame'')]"
    by (simp add: genre_occurrences_def alpha_def gamma_def drama_def)
  from tables_first_seen [OF transform_alpha_gamma]
  have "distinct (map fst (people_df alpha_gamma_tables))"
    and "map_of (people_df alpha_gamma_tables) = map_of (person_occurrences [alpha, gamma])"
    by simp_all
  then show ?thesis
    using transform_alpha_gamma gocc occ by (simp add: alpha_gamma_tables_def)
qed

section \<open>Junction rows and the genre and person tables\<close>

lemma add_unseen_keys: "fst ` set (add_unseen k v d) = insert k (fst ` set d)"
  by (auto simp: add_unseen_def)

lemma genres_of_row_known:
  "mg_genre_id ` set (movie_genres_list st) \<subseteq> fst ` set (all_genres st) \<Longrightarrow>
   mg_genre_id ` set (movie_genres_list (genres_of_row movie_id gs st))
     \<subseteq> fst ` set (all_genres (genres_of_row movie_id gs st))"
proof (induction gs arbitrary: st)
  case Nil
  then show ?case by simp
next
  case (Cons g gs)
  show ?case
    unfolding genres_of_row.simps
    by (rule Cons.IH) (use Cons.prems in \<open>auto simp: add_unseen_keys\<close>)
qed

lemma genres_loop_known:
  "mg_genre_id ` set (movie_genres_list st) \<subseteq> fst ` set (all_genres st) \<Longrightarrow>
   mg_genre_id ` set (movie_genres_list (genres_loop rows st))
     \<subseteq> fst ` set (all_genres (genres_loop rows st))"
proof (induction rows arbitrary: st)
  case Nil
  then show ?case by simp
next
  case (Cons row rows)
  show ?case
    unfolding genres_loop.simps
    by (rule Cons.IH) (rule genres_of_row_known, rule Cons.prems)
qed

lemma find_director_people_grow:
  "fst ` set (all_people st) \<subseteq> fst ` set (all_people (find_director movie_id members st))"
  by (induction members) (auto simp: add_unseen_keys)

lemma cast_of_row_known:
  "mc_person_id ` set (movie_cast_list st) \<subseteq> fst ` set (all_people st) \<Longrightarrow>
   mc_person_id ` set (movie_cast_list (cast_of_row movie_id actors st))
     \<subseteq> fst ` set (all_people (cast_of_row movie_id actors st))"
proof (induction actors arbitrary: st)
  case Nil
  then show ?case by simp
next
  case (Cons a actors)
  show ?case
    unfolding cast_of_row.simps
    by (rule Cons.IH) (use Cons.prems in \<open>auto simp: add_unseen_keys\<close>)
qed

lemma people_of_row_known:
  assumes "mc_person_id ` set (movie_cast_list st) \<subseteq> fst ` set (all_people st)"
  shows "mc_person_id ` set (movie_cast_list (people_of_row row st))
     \<subseteq> fst ` set (all_people (people_of_row row st))"
  unfolding people_of_row_def
proof (rule cast_of_row_known)
  show "mc_person_id ` set (movie_cast_list (find_director (tmdb_id row) (crew row) st))
      \<subseteq> fst ` set (all_people (find_director (tmdb_id row) (crew row) st))"
    using assms find_director_people_grow [of st "tmdb_id row" "crew row"]
    unfolding find_director_cast by (rule subset_trans)
qed

lemma people_loop_known:
  "mc_person_id ` set (movie_cast_list st) \<subseteq> fst ` set (all_people st) \<Longrightarrow>
   mc_person_id ` set (movie_cast_list (people_loop rows st))
     \<subseteq> fst ` set (all_people (people_loop rows st))"
proof (induction rows arbitrary: st)
  case Nil
  then show ?case by simp
next
  case (Cons row rows)
  show ?case
    unfolding people_loop.simps
    by (rule Cons.IH) (rule people_of_row_known, rule Cons.prems)
qed

text \<open>
  Every junction row refers to a genre, respectively a person, that its table holds:
  the id is added to the dictionary, if new, just before the row is appended.
\<close>

lemma junction_ids_known:
  assumes "transform to_datetime rows = Inr t"
  shows "mg_genre_id ` set (movie_genres_df t) \<subseteq> fst ` set (genres_df t)"
    and "mc_person_id ` set (movie_cast_df t) \<subseteq> fst ` set (people_df t)"
proof -
  from assms have eqs: "genres_df t = all_genres (genres_pass rows)"
    "movie_genres_df t = movie_genres_list (genres_pass rows)"
    "people_df t = all_people (people_pass rows)"
    "movie_cast_df t = movie_cast_list (people_pass rows)"
    by (auto elim: transform_Inr)
  show "mg_genre_id ` set (movie_genres_df t) \<subseteq> fst ` set (genres_df t)"
    unfolding eqs genres_pass_def by (rule genres_loop_known) simp
  show "mc_person_id ` set (movie_cast_df t) \<subseteq> fst ` set (people_df t)"
    unfolding eqs people_pass_def by (rule people_loop_known) simp
qed

section \<open>The movies table\<close>















section \<open>Loading\<close>

lemma to_sql_all_result:
  "to_sql_all write_error xs db =
     (assign_all (assigned write_error xs) db, first_error write_error xs)"
proof (induction xs arbitrary: db)
  case Nil
  show ?case by simp
next
  case (Cons x xs)
  obtain name df where x: "x = (name, df)" by (cases x)
  show ?case
  proof (cases "write_error name df")
    case None
    show ?thesis
    proof (cases "columnless df")
      case True
      with None show ?thesis by (simp add: x to_sql_def fun_upd_def)
    next
      case False
      with None show ?thesis by (simp add: x to_sql_def Cons.IH)
    qed
  next
    case (Some r)
    then show ?thesis by (cases r) (simp_all add: x to_sql_def fun_upd_def)
  qed
qed

lemma assign_all_lookup:
  "assign_all as db k = (case map_of (rev as) k of None \<Rightarrow> db k | Some v \<Rightarrow> v)"
proof (induction as arbitrary: db)
  case Nil
  show ?case by simp
next
  case (Cons a as)
  obtain name v where a: "a = (name, v)" by (cases a)
  show ?case
    by (simp add: a Cons.IH map_add_def split: option.splits)
qed

lemma assign_all_twice: "assign_all as (assign_all as db) = assign_all as db"
  by (rule ext) (simp add: assign_all_lookup split: option.splits)

lemma to_sql_all_idem:
  "to_sql_all write_error xs (fst (to_sql_all write_error xs db)) = to_sql_all write_error xs db"
  by (simp add: to_sql_all_result assign_all_twice)

lemma assigned_names: "fst ` set (assigned write_error xs) \<subseteq> fst ` set xs"
proof (induction xs)
  case Nil
  show ?case by simp
next
  case (Cons x xs)
  obtain name df where x: "x = (name, df)" by (cases x)
  show ?case
  proof (cases "write_error name df")
    case None
    with Cons.IH show ?thesis by (auto simp: x)
  next
    case (Some r)
    then show ?thesis by (cases r) (simp_all add: x)
  qed
qed

lemma first_write_stays:
  assumes "write_error name df = None" and "\<not> columnless df" and "name \<notin> fst ` set rest"
  shows "fst (to_sql_all write_error ((name, df) # rest) db) name = Some df"
proof -
  from assms(3) assigned_names [of write_error rest]
  have "name \<notin> fst ` set (assigned write_error rest)" by blast
  then have "map_of (rev (assigned write_error rest)) name = None"
    by (simp add: map_of_eq_None_iff)
  with assms(1,2) show ?thesis
    by (simp add: to_sql_all_result assign_all_lookup map_add_def)
qed

text \<open>A movies table that is not refused is stored as it is, whatever happens to the later writes.\<close>

lemma load_movies:
  assumes "write_error ''movies'' (MoviesFrame (movies_df t)) = None"
  shows "fst (load write_error t db) ''movies'' = Some (MoviesFrame (movies_df t))"
  unfolding load_def by (rule first_write_stays) (simp_all add: assms)

text \<open>
  Claim C8. Loading the five tables into the database that a first load of the same
  tables left gives the same database, and the same outcome, as the first load alone.
  This holds for every database to start from and whatever is refused, a refusal being
  decided by the table name and the frame: a load that a refused write cuts short stops
  at the same write the second time and leaves the same tables.
\<close>

theorem load_idempotent:
  "load write_error t (fst (load write_error t db)) = load write_error t db"
  unfolding load_def by (rule to_sql_all_idem)

lemma load_genreless:
  "load no_write_error genreless_tables earlier_store =
     (earlier_store(''movies'' \<mapsto> MoviesFrame [alpha_row], ''genres'' \<mapsto> IdNameFrame [],
        ''people'' \<mapsto> IdNameFrame [(5, ''Dee'')], ''movie_genres'' := None),
      Some (DatabaseError ''table without columns''))"
  by (simp add: load_def to_sql_def no_write_error_def genreless_tables_def)

theorem load_idempotent_witness:
  "load no_write_error alpha_beta_tables (fst (load no_write_error alpha_beta_tables Map.empty)) =
     load no_write_error alpha_beta_tables Map.empty
   \<and> fst (load no_write_error alpha_beta_tables Map.empty) ''movies'' =
       Some (MoviesFrame [alpha_row])
   \<and> load no_write_error genreless_tables (fst (load no_write_error genreless_tables earlier_store)) =
       load no_write_error genreless_tables earlier_store
   \<and> snd (load no_write_error genreless_tables earlier_store) =
       Some (DatabaseError ''table without columns'')
   \<and> fst (load no_write_error genreless_tables earlier_store) ''movie_genres'' = None
   \<and> fst (load no_write_error genreless_tables earlier_store) ''movie_cast'' =
       earlier_store ''movie_cast''"
proof -
  have "fst (load no_write_error alpha_beta_tables Map.empty) ''movies'' =
      Some (MoviesFrame [alpha_row])"
    by (simp add: load_def to_sql_def no_write_error_def alpha_beta_tables_def)
  moreover have "snd (load no_write_error genreless_tables earlier_store) =
      Some (DatabaseError ''table without columns'')"
    and "fst (load no_write_error genreless_tables earlier_store) ''movie_genres'' = None"
    and "fst (load no_write_error genreless_tables earlier_store) ''movie_cast'' =
      earlier_store ''movie_cast''"
    by (simp_all add: load_genreless)
  ultimately show ?thesis
    using load_idempotent [of no_write_error alpha_beta_tables Map.empty]
      load_idempotent [of no_write_error genreless_tables earlier_store]
    by simp
qed

text \<open>
  Claim C1 at a dataset where it fails. \<open>beta\<close> has no director, so its row is dropped
  from the movies table; its genre row and its cast row were appended before and are
  never removed. After a load that nothing refuses, the stored junction tables hold
  rows for movie 2 while the stored movies table holds movie 1 only.
\<close>

theorem dropped_movie_keeps_junction_rows:
  "transform Inr [alpha, beta] = Inr alpha_beta_tables
   \<and> fst (load no_write_error alpha_beta_tables Map.empty) ''movies'' =
       Some (MoviesFrame [alpha_row])
   \<and> m_id alpha_row = Some 1
   \<and> fst (load no_write_error alpha_beta_tables Map.empty) ''movie_genres'' =
       Some (MovieGenresFrame
         [\<lparr> mg_movie_id = Some 1, mg_genre_id = 18 \<rparr>,
          \<lparr> mg_movie_id = Some 2, mg_genre_id = 18 \<rparr>])
   \<and> fst (load no_write_error alpha_beta_tables Map.empty) ''movie_cast'' =
       Some (MovieCastFrame
         [\<lparr> mc_movie_id = Some 1, mc_person_id = 10, mc_character_name = ''Lead'' \<rparr>,
          \<lparr> mc_movie_id = Some 2, mc_person_id = 11, mc_character_name = ''Hero'' \<rparr>])"
  using transform_alpha_beta
  by (simp add: load_def to_sql_def no_write_error_def alpha_beta_tables_def alpha_row_def)

section \<open>Reporting\<close>

lemma run_queries_conn:
  "conn_open (fst (run_queries read_sql_query qs st)) = conn_open st"
proof (induction qs arbitrary: st)
  case Nil
  show ?case by simp
next
  case (Cons q qs)
  obtain heading query where q: "q = (heading, query)" by (cases q)
  show ?case
    by (cases "read_sql_query query") (simp_all add: q Let_def Cons.IH)
qed

lemma run_queries_fail:
  assumes "\<forall>p\<in>set pre. \<exists>df. read_sql_query (snd p) = Inr df"
    and "read_sql_query query = Inl e"
  shows "snd (run_queries read_sql_query (pre @ (heading, query) # post) st) = Some e
       \<and> executed (fst (run_queries read_sql_query (pre @ (heading, query) # post) st)) =
           executed st @ map snd pre @ [query]"
  using assms
proof (induction pre arbitrary: st)
  case Nil
  then show ?case by (simp add: Let_def)
next
  case (Cons p pre)
  obtain h q where p: "p = (h, q)" by (cases p)
  from Cons.prems obtain df where df: "read_sql_query q = Inr df" by (auto simp: p)
  from Cons.prems have rest: "\<forall>p\<in>set pre. \<exists>df. read_sql_query (snd p) = Inr df" by simp
  show ?case
    using Cons.IH [OF rest Cons.prems(2)] by (simp add: p df Let_def)
qed

lemma run_queries_ok:
  assumes "\<forall>p\<in>set qs. \<exists>df. read_sql_query (snd p) = Inr df"
  shows "snd (run_queries read_sql_query qs st) = None
       \<and> executed (fst (run_queries read_sql_query qs st)) = executed st @ map snd qs"
  using assms
proof (induction qs arbitrary: st)
  case Nil
  then show ?case by simp
next
  case (Cons p qs)
  obtain h q where p: "p = (h, q)" by (cases p)
  from Cons.prems obtain df where df: "read_sql_query q = Inr df" by (auto simp: p)
  from Cons.prems have rest: "\<forall>p\<in>set qs. \<exists>df. read_sql_query (snd p) = Inr df" by simp
  show ?case
    using Cons.IH [OF rest] by (simp add: p df Let_def)
qed

lemma report_closed: "conn_open (report connect_error read_sql_query qs) = False"
proof (cases connect_error)
  case None
  then show ?thesis
    by (simp add: report_def Let_def case_prod_beta run_queries_conn split: option.splits)
next
  case (Some e)
  then show ?thesis by (simp add: report_def)
qed

text \<open>
  Claim C9. When the connection is made, the queries before some query all succeed and
  that query raises, the queries executed are exactly those up to and including the
  failing one (none after it), and the output ends with the error report followed by
  the notice that the connection was closed. In every run, whether the connection
  fails, a query fails or all succeed, the connection is not open at the end.
\<close>

theorem report_aborts_and_closes:
  "conn_open (report connect_error read_sql_query qs) = False
   \<and> ((\<forall>p\<in>set pre. \<exists>df. read_sql_query (snd p) = Inr df) \<longrightarrow>
        read_sql_query query = Inl e \<longrightarrow>
          executed (report None read_sql_query (pre @ (heading, query) # post)) =
            map snd pre @ [query]
          \<and> (\<exists>ls. printed (report None read_sql_query (pre @ (heading, query) # post)) =
                    ls @ [ErrorOccurred e, ConnectionClosed]))
   \<and> ((\<forall>p\<in>set qs. \<exists>df. read_sql_query (snd p) = Inr df) \<longrightarrow>
        executed (report None read_sql_query qs) = map snd qs)"
proof (intro conjI impI)
  show "conn_open (report connect_error read_sql_query qs) = False"
    by (rule report_closed)
next
  assume ok: "\<forall>p\<in>set pre. \<exists>df. read_sql_query (snd p) = Inr df"
    and bad: "read_sql_query query = Inl e"
  let ?st1 = "\<lparr> conn_open = True, executed = [], printed = [Connected] \<rparr> :: 'a report_state"
  let ?r = "run_queries read_sql_query (pre @ (heading, query) # post) ?st1"
  from run_queries_fail [OF ok bad, of heading post ?st1]
  have raised: "snd ?r = Some e" and ex: "executed (fst ?r) = map snd pre @ [query]"
    by simp_all
  show "executed (report None read_sql_query (pre @ (heading, query) # post)) =
      map snd pre @ [query]"
    using raised ex by (simp add: report_def Let_def case_prod_beta)
  have "printed (report None read_sql_query (pre @ (heading, query) # post)) =
      printed (fst ?r) @ [ErrorOccurred e, ConnectionClosed]"
    using raised by (simp add: report_def Let_def case_prod_beta)
  then show "\<exists>ls. printed (report None read_sql_query (pre @ (heading, query) # post)) =
      ls @ [ErrorOccurred e, ConnectionClosed]" ..
next
  assume ok: "\<forall>p\<in>set qs. \<exists>df. read_sql_query (snd p) = Inr df"
  let ?st1 = "\<lparr> conn_open = True, executed = [], printed = [Connected] \<rparr> :: 'a report_state"
  from run_queries_ok [OF ok, of ?st1]
  show "executed (report None read_sql_query qs) = map snd qs"
    by (simp add: report_def Let_def case_prod_beta)
qed

theorem report_aborts_and_closes_witness:
  "third_query_fails Query3_top_directors = Inl (DatabaseError ''no such table: people'')
   \<and> executed (report None third_query_fails queries) =
       [Query1_top_movies, Query2_movies_per_genre, Query3_top_directors]
   \<and> conn_open (report None third_query_fails queries) = False
   \<and> printed (report None third_query_fails queries) =
       [Connected,
        QueryResult ''1. The top 10 movies based on ratings'', ResultTable [1],
        QueryResult ''2. Number of films by genre'', ResultTable [1],
        QueryResult ''3. The 5 most prolific directors'',
        ErrorOccurred (DatabaseError ''no such table: people''), ConnectionClosed]"
proof -
  let ?pre = "[(''1. The top 10 movies based on ratings'', Query1_top_movies),
               (''2. Number of films by genre'', Query2_movies_per_genre)]"
  let ?post = "[(''4. Average rating per director (with >1 film)'', Query4_director_avg_rating),
                (''5. Films after 2001'', Query5_movies_after_2001)]"
  have split: "queries = ?pre @ (''3. The 5 most prolific directors'', Query3_top_directors) # ?post"
    by (simp add: queries_def)
  have ok: "\<forall>p\<in>set ?pre. \<exists>df. third_query_fails (snd p) = Inr df"
    by (simp add: third_query_fails_def)
  have bad: "third_query_fails Query3_top_directors = Inl (DatabaseError ''no such table: people'')"
    by (simp add: third_query_fails_def)
  from report_aborts_and_closes
    [of None third_query_fails queries ?pre Query3_top_directors
        "DatabaseError ''no such table: people''" "''3. The 5 most prolific directors''" ?post]
    ok bad
  have "executed (report None third_query_fails queries) =
       [Query1_top_movies, Query2_movies_per_genre, Query3_top_directors]"
    and "conn_open (report None third_query_fails queries) = False"
    unfolding split by simp_all
  moreover have "printed (report None third_query_fails queries) =
       [Connected,
        QueryResult ''1. The top 10 movies based on ratings'', ResultTable [1],
        QueryResult ''2. Number of films by genre'', ResultTable [1],
        QueryResult ''3. The 5 most prolific directors'',
        ErrorOccurred (DatabaseError ''no such table: people''), ConnectionClosed]"
    by (simp add: report_def queries_def third_query_fails_def Let_def)
  ultimately show ?thesis using bad by simp
qed

section \<open>The fifth query\<close>

lemma digit_char_less:
  "a < 10 \<Longrightarrow> b < 10 \<Longrightarrow> digit_char a < digit_char b \<longleftrightarrow> a < b"
  by (simp add: digit_char_def less_char_def)

lemma digit_char_eq:
  "a < 10 \<Longrightarrow> b < 10 \<Longrightarrow> digit_char a = digit_char b \<longleftrightarrow> a = b"
proof -
  assume a: "a < 10" and b: "b < 10"
  have "digit_char a = digit_char b \<longleftrightarrow>
      (of_char (digit_char a) :: nat) = of_char (digit_char b)"
    by simp
  also have "\<dots> \<longleftrightarrow> a = b"
    using a b by (simp add: digit_char_def take_bit_nat_eq_self del: of_char_eq_iff)
  finally show ?thesis .
qed

lemma digit_chars:
  "CHR ''0'' = digit_char 0" "CHR ''1'' = digit_char 1" "CHR ''2'' = digit_char 2"
  unfolding digit_char_def
  by ((subst of_char_eq_iff [where ?'a = nat, symmetric], simp)+)

lemma text_2001: "''2001'' = [digit_char 2, digit_char 0, digit_char 0, digit_char 1]"
  by (simp only: digit_chars [symmetric])

lemma four_digits_after_2001:
  fixes a b c d :: nat
  assumes "a < 10" "b < 10" "c < 10" "d < 10"
  shows "''2001'' < [digit_char a, digit_char b, digit_char c, digit_char d]
         \<longleftrightarrow> 2001 < 1000 * a + 100 * b + 10 * c + d"
proof -
  have "''2001'' < [digit_char a, digit_char b, digit_char c, digit_char d] \<longleftrightarrow>
        (2 < a \<or> 2 = a \<and> (0 < b \<or> 0 = b \<and> (0 < c \<or> 0 = c \<and> 1 < d)))"
    unfolding text_2001 using assms
    by (simp add: digit_char_less digit_char_eq)
  also have "\<dots> \<longleftrightarrow> 2001 < 1000 * a + 100 * b + 10 * c + d"
    using assms by linarith
  finally show ?thesis .
qed

lemma year_digits:
  fixes y :: nat
  assumes "y \<le> 9999"
  shows "y div 1000 < 10"
    and "y = 1000 * (y div 1000) + 100 * (y div 100 mod 10) + 10 * (y div 10 mod 10) + y mod 10"
proof -
  from assms have "y < 1000 * 10" by simp
  then show "y div 1000 < 10" by (simp only: div_less_iff_less_mult)
  have h: "y div 100 = y div 10 div 10" and t: "y div 1000 = y div 10 div 10 div 10"
    by (simp_all add: div_mult2_eq [symmetric])
  have a: "y = 10 * (y div 10) + y mod 10" by simp
  have b: "y div 10 = 10 * (y div 10 div 10) + y div 10 mod 10" by simp
  have c: "y div 10 div 10 = 10 * (y div 10 div 10 div 10) + y div 10 div 10 mod 10" by simp
  show "y = 1000 * (y div 1000) + 100 * (y div 100 mod 10) + 10 * (y div 10 mod 10) + y mod 10"
    unfolding h t using a b c by linarith
qed

lemma strftime_Y_after_2001:
  assumes "m_release_date m = Some d" and "valid_date d"
  shows "after_2001 m \<longleftrightarrow> 2001 < year d"
proof -
  from assms(2) have y: "year d \<le> 9999" by (simp add: valid_date_def)
  have "''2001'' < [digit_char (year d div 1000), digit_char (year d div 100 mod 10),
                    digit_char (year d div 10 mod 10), digit_char (year d mod 10)]
        \<longleftrightarrow> 2001 < 1000 * (year d div 1000) + 100 * (year d div 100 mod 10)
                     + 10 * (year d div 10 mod 10) + year d mod 10"
    by (rule four_digits_after_2001) (simp_all add: year_digits(1) [OF y])
  also have "\<dots> \<longleftrightarrow> 2001 < year d"
    using year_digits(2) [OF y] by simp
  finally show ?thesis
    using assms by (simp add: after_2001_def strftime_Y_def)
qed

lemma after_2001_released:
  assumes "\<forall>d. m_release_date m = Some d \<longrightarrow> valid_date d"
  shows "after_2001 m \<longleftrightarrow> released_after_2001 m"
proof (cases "m_release_date m")
  case None
  then show ?thesis by (simp add: after_2001_def strftime_Y_def released_after_2001_def)
next
  case (Some d)
  with assms have "valid_date d" by simp
  from strftime_Y_after_2001 [OF Some this] Some show ?thesis
    by (simp add: released_after_2001_def)
qed

lemma selected:
  assumes "valid_date \<lparr> year = y, month = m, day = d \<rparr>"
  shows "after_2001 (released name y m d) \<longleftrightarrow> 2001 < y"
  using strftime_Y_after_2001 [OF _ assms, of "released name y m d"]
  by (simp add: released_def)

lemma three_releases_selected:
  "filter after_2001 three_releases = [released ''Summer'' 2002 6 15]"
  by (simp add: three_releases_def selected valid_date_def)

lemma six_releases_selected:
  "filter after_2001 six_releases =
     [released ''Spring'' 2005 3 1, released ''Fireworks'' 2010 7 4,
      released ''Summer'' 2002 6 15, released ''March'' 2005 3 1]"
  by (simp add: six_releases_def selected valid_date_def)

lemma date_key_le: "date_key y \<le> date_key x \<longleftrightarrow> on_or_after x y"
  by (auto simp: date_key_def on_or_after_def split: option.splits)

lemma order_by_release_date_desc_sorted:
  "sorted_wrt (\<lambda>m1 m2. on_or_after (m_release_date m1) (m_release_date m2))
     (order_by_release_date_desc rows)"
proof -
  let ?k = "\<lambda>m. date_key (m_release_date m)"
  have "sorted (map ?k (sort_key ?k (rev rows)))" by (rule sorted_sort_key)
  then have "sorted_wrt (\<lambda>m1 m2. ?k m1 \<le> ?k m2) (sort_key ?k (rev rows))"
    by (simp add: sorted_map)
  then have "sorted_wrt (\<lambda>m1 m2. ?k m2 \<le> ?k m1) (rev (sort_key ?k (rev rows)))"
    by (simp add: sorted_wrt_rev)
  then show ?thesis
    by (simp add: order_by_release_date_desc_def date_key_le)
qed

lemma order_by_release_date_desc_mset:
  "mset (order_by_release_date_desc rows) = mset rows"
  by (simp add: order_by_release_date_desc_def)

text \<open>
  Claim C7. Over a stored movies table whose release dates are calendar dates of years
  0000 to 9999 (or NULL), the fifth query returns exactly the title and release date of
  the movies whose release year is greater than 2001, each as often as it is stored,
  and every returned row has a release date that is not before the date of any row
  after it. On the table with releases dated 2000-01-01, 2001-12-31 and 2002-06-15 it
  returns the 2002-06-15 row alone.
\<close>

theorem query5_after_2001:
  assumes "\<forall>m\<in>set movies. \<forall>d. m_release_date m = Some d \<longrightarrow> valid_date d"
  shows "mset (query5_movies_after_2001 movies) =
           mset (map (\<lambda>m. (m_title m, m_release_date m)) (filter released_after_2001 movies))
       \<and> sorted_wrt (\<lambda>row1 row2. on_or_after (snd row1) (snd row2))
           (query5_movies_after_2001 movies)
       \<and> query5_movies_after_2001 three_releases =
           [(Some ''Summer'', Some \<lparr> year = 2002, month = 6, day = 15 \<rparr>)]"
proof (intro conjI)
  have sel: "filter after_2001 movies = filter released_after_2001 movies"
    by (rule filter_cong) (use assms in \<open>auto simp: after_2001_released\<close>)
  show "mset (query5_movies_after_2001 movies) =
      mset (map (\<lambda>m. (m_title m, m_release_date m)) (filter released_after_2001 movies))"
    by (simp add: query5_movies_after_2001_def order_by_release_date_desc_mset sel)
  show "sorted_wrt (\<lambda>row1 row2. on_or_after (snd row1) (snd row2))
      (query5_movies_after_2001 movies)"
    using order_by_release_date_desc_sorted [of "filter after_2001 movies"]
    by (simp add: query5_movies_after_2001_def sorted_wrt_map)
  show "query5_movies_after_2001 three_releases =
      [(Some ''Summer'', Some \<lparr> year = 2002, month = 6, day = 15 \<rparr>)]"
    by (simp add: query5_movies_after_2001_def three_releases_selected
          order_by_release_date_desc_def released_def)
qed

lemma query5_six_releases:
  "query5_movies_after_2001 six_releases =
     [(Some ''Fireworks'', Some \<lparr> year = 2010, month = 7, day = 4 \<rparr>),
      (Some ''Spring'', Some \<lparr> year = 2005, month = 3, day = 1 \<rparr>),
      (Some ''March'', Some \<lparr> year = 2005, month = 3, day = 1 \<rparr>),
      (Some ''Summer'', Some \<lparr> year = 2002, month = 6, day = 15 \<rparr>)]"
  by (simp add: query5_movies_after_2001_def six_releases_selected
        order_by_release_date_desc_def released_def date_key_def)

theorem query5_after_2001_witness:
  "valid_date \<lparr> year = 2005, month = 3, day = 1 \<rparr>
   \<and> valid_date \<lparr> year = 2000, month = 1, day = 1 \<rparr>
   \<and> valid_date \<lparr> year = 2010, month = 7, day = 4 \<rparr>
   \<and> valid_date \<lparr> year = 2002, month = 6, day = 15 \<rparr>
   \<and> valid_date \<lparr> year = 2001, month = 12, day = 31 \<rparr>
   \<and> query5_movies_after_2001 six_releases =
       [(Some ''Fireworks'', Some \<lparr> year = 2010, month = 7, day = 4 \<rparr>),
        (Some ''Spring'', Some \<lparr> year = 2005, month = 3, day = 1 \<rparr>),
        (Some ''March'', Some \<lparr> year = 2005, month = 3, day = 1 \<rparr>),
        (Some ''Summer'', Some \<lparr> year = 2002, month = 6, day = 15 \<rparr>)]
   \<and> sorted_wrt (\<lambda>row1 row2. on_or_after (snd row1) (snd row2))
       (query5_movies_after_2001 six_releases)
   \<and> mset (query5_movies_after_2001 six_releases) =
       mset (map (\<lambda>m. (m_title m, m_release_date m)) (filter released_after_2001 six_releases))"
proof -
  have dates: "valid_date \<lparr> year = 2005, month = 3, day = 1 \<rparr>"
    "valid_date \<lparr> year = 2000, month = 1, day = 1 \<rparr>"
    "valid_date \<lparr> year = 2010, month = 7, day = 4 \<rparr>"
    "valid_date \<lparr> year = 2002, month = 6, day = 15 \<rparr>"
    "valid_date \<lparr> year = 2001, month = 12, day = 31 \<rparr>"
    by (simp_all add: valid_date_def)
  then have valid: "\<forall>m\<in>set six_releases. \<forall>d. m_release_date m = Some d \<longrightarrow> valid_date d"
    by (simp add: six_releases_def released_def)
  from query5_after_2001 [OF valid]
  have "mset (query5_movies_after_2001 six_releases) =
      mset (map (\<lambda>m. (m_title m, m_release_date m)) (filter released_after_2001 six_releases))"
    and "sorted_wrt (\<lambda>row1 row2. on_or_after (snd row1) (snd row2))
      (query5_movies_after_2001 six_releases)"
    by blast+
  with dates query5_six_releases show ?thesis by blast
qed


end
